theory Spec2Isabelle
  imports Complex_Main "HOL-Library.Word"
begin

unbundle bit_operations_syntax

section \<open>ShaderTypes.h: the types shared by the Metal shaders and the host\<close>

text \<open>
  The header \<^verbatim>\<open>src/HoleDisplacement/ShaderTypes.h\<close> declares two enumerations of
  buffer binding slots and five plain structs. It declares no function. An enumeration is
  embedded as a datatype with its raw-value function, a struct as a record whose fields
  stand in declaration order, a member assignment \<^verbatim>\<open>u.f = v\<close> as the record update
  \<open>u\<lparr>f := v\<rparr>\<close> and a member read \<^verbatim>\<open>u.f\<close> as the selector \<open>f u\<close>.
  What the header leaves to its includes and to its users (the widths of the scalar and
  vector types, writing a struct into a buffer and reading it there) is modelled from the
  spec, and each such definition says so.
\<close>

subsection \<open>Scalar and vector types the header takes from its includes\<close>

text \<open>
  Modelled from the spec: the typedef \<^verbatim>\<open>uint\<close> is not declared in the header (Metal
  and the system headers provide it). The spec fixes its width: "all scalar fields are
  fixed-width (32-bit int or float)". It is unsigned, so it is a 32-bit word read by
  \<open>unat\<close>/\<open>uint\<close>.
\<close>

type_synonym uint = "32 word"

text \<open>
  Modelled from the spec: \<^verbatim>\<open>float\<close> is the 32-bit floating-point scalar. The header
  performs no arithmetic on it: a float is only stored and read back, so it is modelled
  by what the buffer holds, its IEEE-754 binary32 bit pattern.
\<close>

datatype float = float_of_bits (float_bits: "32 word")

text \<open>
  Modelled from the spec: \<^verbatim>\<open>vector_float2\<close> and \<^verbatim>\<open>vector_float4\<close> come from
  \<^verbatim>\<open><simd/simd.h>\<close>, which is not part of the sources: "vector fields are fixed-size
  (2- or 4-component) float vectors". The components the source calls \<^verbatim>\<open>x y z w\<close>
  carry the vector's arity in their names here, since \<open>x\<close> and \<open>y\<close> alone would
  capture the variables of every statement.
\<close>

record vector_float2 =
  x2 :: float
  y2 :: float

record vector_float4 =
  x4 :: float
  y4 :: float
  z4 :: float
  w4 :: float

text \<open>
  A C array member \<^verbatim>\<open>T a[4]\<close>: exactly four elements, subscripted from 0. A subscript
  outside \<open>0..3\<close> is undefined behaviour in C; here it is the value \<open>None\<close>.
\<close>

datatype 'a array4 = Array4 'a 'a 'a 'a

fun array4_elems :: "'a array4 \<Rightarrow> 'a list" where
  "array4_elems (Array4 a b c d) = [a, b, c, d]"

definition array4_capacity :: "'a array4 \<Rightarrow> nat" where
  "array4_capacity a = length (array4_elems a)"

definition array4_get :: "'a array4 \<Rightarrow> nat \<Rightarrow> 'a option" where
  "array4_get a i = (if i < array4_capacity a then Some (array4_elems a ! i) else None)"

subsection \<open>The enumerations\<close>

text \<open>
  \<^verbatim>\<open>EnumBackingType\<close> is \<^verbatim>\<open>metal::int32_t\<close> under Metal and \<^verbatim>\<open>NSInteger\<close> on the
  host. The enumerators are the literals 0 to 4, which both types hold, so the raw value is
  an \<open>int\<close>.
\<close>

type_synonym EnumBackingType = int

datatype BufferIndex =
    BufferIndexVertices
  | BufferIndexInstances
  | BufferIndexUniforms

fun BufferIndex_raw :: "BufferIndex \<Rightarrow> EnumBackingType" where
  "BufferIndex_raw BufferIndexVertices = 0"
| "BufferIndex_raw BufferIndexInstances = 1"
| "BufferIndex_raw BufferIndexUniforms = 2"

datatype SimulationBufferIndex =
    SimulationBufferIndexRestPositions
  | SimulationBufferIndexStates
  | SimulationBufferIndexInstances
  | SimulationBufferIndexUniforms
  | SimulationBufferIndexTouches

fun SimulationBufferIndex_raw :: "SimulationBufferIndex \<Rightarrow> EnumBackingType" where
  "SimulationBufferIndex_raw SimulationBufferIndexRestPositions = 0"
| "SimulationBufferIndex_raw SimulationBufferIndexStates = 1"
| "SimulationBufferIndex_raw SimulationBufferIndexInstances = 2"
| "SimulationBufferIndex_raw SimulationBufferIndexUniforms = 3"
| "SimulationBufferIndex_raw SimulationBufferIndexTouches = 4"

subsection \<open>The structs\<close>

record DotInstanceUniform =
  center :: vector_float2

text \<open>
  The member the source names \<^verbatim>\<open>_padding\<close> is \<open>underscore_padding\<close> here: an Isabelle
  name cannot start with an underscore.
\<close>

record FrameUniforms =
  canvasSize :: vector_float2
  dotRadius :: float
  smoothing :: float
  gradientStart :: vector_float2
  gradientEnd :: vector_float2
  time :: float
  driftStrength :: float
  gradientStopCount :: uint
  underscore_padding :: uint
  gradientStops :: vector_float4
  gradientColors :: "vector_float4 array4"

record SimulationDotState =
  offset :: vector_float2
  velocity :: vector_float2

record SimulationTouch =
  position :: vector_float4

record SimulationUniforms =
  timeSpring :: vector_float4
  displacementMass :: vector_float4
  touchCount :: uint
  dotCount :: uint
  padding0 :: uint
  padding1 :: uint

subsection \<open>What the source's comments say of the packed vectors\<close>

text \<open>
  \<^verbatim>\<open>timeSpring\<close>: "x=dt, y=stiffness, z=damping, w=effectRadius";
  \<^verbatim>\<open>displacementMass\<close>: "x=maxDisplacement, y=invMass, z=pixelScale, w=unused".
  The unused component gets no name.
\<close>

definition dt :: "SimulationUniforms \<Rightarrow> float" where
  "dt u = x4 (timeSpring u)"

definition stiffness :: "SimulationUniforms \<Rightarrow> float" where
  "stiffness u = y4 (timeSpring u)"

definition damping :: "SimulationUniforms \<Rightarrow> float" where
  "damping u = z4 (timeSpring u)"

definition effectRadius :: "SimulationUniforms \<Rightarrow> float" where
  "effectRadius u = w4 (timeSpring u)"

definition maxDisplacement :: "SimulationUniforms \<Rightarrow> float" where
  "maxDisplacement u = x4 (displacementMass u)"

definition invMass :: "SimulationUniforms \<Rightarrow> float" where
  "invMass u = y4 (displacementMass u)"

definition pixelScale :: "SimulationUniforms \<Rightarrow> float" where
  "pixelScale u = z4 (displacementMass u)"

subsection \<open>The declarations as data\<close>

text \<open>
  The member lists of the five structs, as the header writes them: name and type, in
  declaration order.
\<close>

datatype ctype = T_float | T_uint | T_vector_float2 | T_vector_float4 | T_array ctype nat

type_synonym struct_decl = "(string \<times> ctype) list"

definition DotInstanceUniform_decl :: struct_decl where
  "DotInstanceUniform_decl = [(''center'', T_vector_float2)]"

definition FrameUniforms_decl :: struct_decl where
  "FrameUniforms_decl =
     [(''canvasSize'', T_vector_float2),
      (''dotRadius'', T_float),
      (''smoothing'', T_float),
      (''gradientStart'', T_vector_float2),
      (''gradientEnd'', T_vector_float2),
      (''time'', T_float),
      (''driftStrength'', T_float),
      (''gradientStopCount'', T_uint),
      (''_padding'', T_uint),
      (''gradientStops'', T_vector_float4),
      (''gradientColors'', T_array T_vector_float4 4)]"

definition SimulationDotState_decl :: struct_decl where
  "SimulationDotState_decl = [(''offset'', T_vector_float2), (''velocity'', T_vector_float2)]"

definition SimulationTouch_decl :: struct_decl where
  "SimulationTouch_decl = [(''position'', T_vector_float4)]"

definition SimulationUniforms_decl :: struct_decl where
  "SimulationUniforms_decl =
     [(''timeSpring'', T_vector_float4),
      (''displacementMass'', T_vector_float4),
      (''touchCount'', T_uint),
      (''dotCount'', T_uint),
      (''padding0'', T_uint),
      (''padding1'', T_uint)]"

subsection \<open>Sizes, alignments and the layout of a struct\<close>

text \<open>
  Modelled from the spec: the widths of the types the header takes from its includes.
  "All scalar fields are fixed-width (32-bit int or float); vector fields are fixed-size
  (2- or 4-component) float vectors": 4 bytes for a scalar, 8 and 16 for the vectors. An
  array is its elements one after the other.
\<close>

fun sizeof :: "ctype \<Rightarrow> nat" where
  "sizeof T_float = 4"
| "sizeof T_uint = 4"
| "sizeof T_vector_float2 = 8"
| "sizeof T_vector_float4 = 16"
| "sizeof (T_array t n) = n * sizeof t"

text \<open>
  Modelled from the spec: the alignment that the header's "explicit padding to maintain
  alignment" answers to. A scalar and a vector are aligned to their own size (as Metal and
  the simd vector types are), an array as its element.
\<close>

fun alignof :: "ctype \<Rightarrow> nat" where
  "alignof T_float = 4"
| "alignof T_uint = 4"
| "alignof T_vector_float2 = 8"
| "alignof T_vector_float4 = 16"
| "alignof (T_array t n) = alignof t"

text \<open>
  The layout rule of C: each member goes to the first offset at or after the end of the
  member before it that is a multiple of its alignment; the struct is aligned as its most
  aligned member, and its size is the end of the last member rounded up to that.
\<close>

definition align_up :: "nat \<Rightarrow> nat \<Rightarrow> nat" where
  "align_up a off = ((off + a - 1) div a) * a"

fun member_offsets :: "nat \<Rightarrow> ctype list \<Rightarrow> nat list" where
  "member_offsets off [] = []"
| "member_offsets off (t # ts) =
     (let pos = align_up (alignof t) off in pos # member_offsets (pos + sizeof t) ts)"

fun members_end :: "nat \<Rightarrow> ctype list \<Rightarrow> nat" where
  "members_end off [] = off"
| "members_end off (t # ts) = members_end (align_up (alignof t) off + sizeof t) ts"

definition struct_align :: "ctype list \<Rightarrow> nat" where
  "struct_align ts = foldr (\<lambda>t a. max (alignof t) a) ts 1"

definition offsets :: "struct_decl \<Rightarrow> (string \<times> nat) list" where
  "offsets d = zip (map fst d) (member_offsets 0 (map snd d))"

definition struct_size :: "struct_decl \<Rightarrow> nat" where
  "struct_size d = align_up (struct_align (map snd d)) (members_end 0 (map snd d))"

text \<open>
  Modelled from the spec: the agreed layout. The spec gives it in words, not in numbers: "a
  stable, padding-explicit memory layout", "plain records with fixed-width fields and
  explicit padding fields kept for alignment", "field order, widths, and explicit padding
  fields given above must be preserved exactly". That is: the members in declaration
  order, each directly after the one before, and nothing the declaration does not name.
\<close>

fun packed_offsets :: "nat \<Rightarrow> ctype list \<Rightarrow> nat list" where
  "packed_offsets off [] = []"
| "packed_offsets off (t # ts) = off # packed_offsets (off + sizeof t) ts"

definition agreed_offsets :: "struct_decl \<Rightarrow> (string \<times> nat) list" where
  "agreed_offsets d = zip (map fst d) (packed_offsets 0 (map snd d))"

definition agreed_size :: "struct_decl \<Rightarrow> nat" where
  "agreed_size d = sum_list (map (sizeof \<circ> snd) d)"

subsection \<open>Values\<close>


text \<open>
  Storing an integer expression into a \<^verbatim>\<open>uint\<close> member converts it to the unsigned
  type: the value is reduced modulo \<open>2 ^ 32\<close> (C11 6.3.1.3).
\<close>

definition uint_of_int :: "int \<Rightarrow> uint" where
  "uint_of_int i = word_of_int i"

subsection \<open>The structs in a buffer\<close>

text \<open>
  Modelled from the spec: the header declares no function that writes or reads a buffer;
  the host and the shaders do that, outside the sources. The spec describes it: "host
  writes raw memory, device reads same raw memory with a matching struct declaration", and
  the round trip "write known byte patterns, read back via the struct definition". All
  definitions of this subsection follow these words: a buffer is a list of bytes, the
  writer stores the bytes of every member at the member's offset under the layout rule
  above, and the reader loads every member from its offset. Writing or reading a struct in
  a buffer shorter than the struct is out of bounds and gives \<open>None\<close>. The spec fixes no
  byte order, only that both sides agree: the byte order is a parameter that the writer
  and the reader share.
\<close>

type_synonym byte = "8 word"

datatype byte_order = LittleEndian | BigEndian

text \<open>
  Modelled from the spec: reading \<open>n\<close> bytes of raw memory at an offset.
\<close>

definition load_bytes :: "nat \<Rightarrow> nat \<Rightarrow> byte list \<Rightarrow> byte list" where
  "load_bytes off n mem = take n (drop off mem)"

text \<open>
  Modelled from the spec: writing bytes to raw memory at an offset; the bytes around them
  stay. Its callers check the bounds first.
\<close>

definition store_bytes :: "nat \<Rightarrow> byte list \<Rightarrow> byte list \<Rightarrow> byte list" where
  "store_bytes off bs mem = take off mem @ bs @ drop (off + length bs) mem"

text \<open>
  Modelled from the spec: the "explicitly-copied buffer": the first \<open>n\<close> bytes of one
  buffer copied to the start of another, \<open>None\<close> when either is shorter than \<open>n\<close>.
\<close>

definition memcpy :: "byte list \<Rightarrow> byte list \<Rightarrow> nat \<Rightarrow> byte list option" where
  "memcpy dst src n =
     (if n \<le> length src \<and> n \<le> length dst then Some (store_bytes 0 (load_bytes 0 n src) dst)
      else None)"

text \<open>
  Modelled from the spec: the four bytes of a 32-bit scalar, least significant first, and
  the scalar four such bytes stand for.
\<close>

definition uint_bytes_le :: "uint \<Rightarrow> byte list" where
  "uint_bytes_le w =
     [ucast w, ucast (drop_bit 8 w), ucast (drop_bit 16 w), ucast (drop_bit 24 w)]"

definition uint_of_bytes_le :: "byte list \<Rightarrow> uint" where
  "uint_of_bytes_le bs = foldr (\<lambda>b w. ucast b OR push_bit 8 w) bs 0"

text \<open>
  Modelled from the spec: the bytes of a \<^verbatim>\<open>uint\<close> in the byte order both sides share.
\<close>

definition uint_bytes :: "byte_order \<Rightarrow> uint \<Rightarrow> byte list" where
  "uint_bytes bo w =
     (case bo of LittleEndian \<Rightarrow> uint_bytes_le w | BigEndian \<Rightarrow> rev (uint_bytes_le w))"

definition uint_of_bytes :: "byte_order \<Rightarrow> byte list \<Rightarrow> uint" where
  "uint_of_bytes bo bs =
     (case bo of LittleEndian \<Rightarrow> uint_of_bytes_le bs | BigEndian \<Rightarrow> uint_of_bytes_le (rev bs))"

text \<open>
  Modelled from the spec: the bytes of a \<^verbatim>\<open>float\<close>: those of its bit pattern.
\<close>

definition float_bytes :: "byte_order \<Rightarrow> float \<Rightarrow> byte list" where
  "float_bytes bo f = uint_bytes bo (float_bits f)"

definition float_of_bytes :: "byte_order \<Rightarrow> byte list \<Rightarrow> float" where
  "float_of_bytes bo bs = float_of_bits (uint_of_bytes bo bs)"

text \<open>
  Modelled from the spec: a vector is its components one after the other, \<^verbatim>\<open>x\<close> first.
\<close>

definition vector_float2_bytes :: "byte_order \<Rightarrow> vector_float2 \<Rightarrow> byte list" where
  "vector_float2_bytes bo v = float_bytes bo (x2 v) @ float_bytes bo (y2 v)"

definition vector_float2_of_bytes :: "byte_order \<Rightarrow> byte list \<Rightarrow> vector_float2" where
  "vector_float2_of_bytes bo bs =
     \<lparr>x2 = float_of_bytes bo (load_bytes 0 4 bs), y2 = float_of_bytes bo (load_bytes 4 4 bs)\<rparr>"

definition vector_float4_bytes :: "byte_order \<Rightarrow> vector_float4 \<Rightarrow> byte list" where
  "vector_float4_bytes bo v =
     float_bytes bo (x4 v) @ float_bytes bo (y4 v) @ float_bytes bo (z4 v) @ float_bytes bo (w4 v)"

definition vector_float4_of_bytes :: "byte_order \<Rightarrow> byte list \<Rightarrow> vector_float4" where
  "vector_float4_of_bytes bo bs =
     \<lparr>x4 = float_of_bytes bo (load_bytes 0 4 bs), y4 = float_of_bytes bo (load_bytes 4 4 bs),
      z4 = float_of_bytes bo (load_bytes 8 4 bs), w4 = float_of_bytes bo (load_bytes 12 4 bs)\<rparr>"

text \<open>
  Modelled from the spec: an array is its elements one after the other.
\<close>

definition array4_bytes :: "('a \<Rightarrow> byte list) \<Rightarrow> 'a array4 \<Rightarrow> byte list" where
  "array4_bytes enc a = concat (map enc (array4_elems a))"

definition array4_of_bytes :: "(byte list \<Rightarrow> 'a) \<Rightarrow> nat \<Rightarrow> byte list \<Rightarrow> 'a array4" where
  "array4_of_bytes dec n bs =
     Array4 (dec (load_bytes 0 n bs)) (dec (load_bytes n n bs))
       (dec (load_bytes (2 * n) n bs)) (dec (load_bytes (3 * n) n bs))"

text \<open>
  Modelled from the spec: the writer stores each member at its offset under the layout rule; the
  reader loads each member, as wide as its type, from the same offset.
\<close>

fun write_members :: "nat \<Rightarrow> (ctype \<times> byte list) list \<Rightarrow> byte list \<Rightarrow> byte list" where
  "write_members off [] mem = mem"
| "write_members off ((t, bs) # ms) mem =
     (let pos = align_up (alignof t) off
      in write_members (pos + sizeof t) ms (store_bytes pos bs mem))"

fun read_members :: "nat \<Rightarrow> ctype list \<Rightarrow> byte list \<Rightarrow> byte list list" where
  "read_members off [] mem = []"
| "read_members off (t # ts) mem =
     (let pos = align_up (alignof t) off
      in load_bytes pos (sizeof t) mem # read_members (pos + sizeof t) ts mem)"

text \<open>
  A property of a member list, used to state when a struct has no gap: from an offset on,
  each member starts where the one before ends, already aligned, and its bytes are as many
  as its type is wide.
\<close>

fun members_packed :: "nat \<Rightarrow> (ctype \<times> byte list) list \<Rightarrow> bool" where
  "members_packed off [] = True"
| "members_packed off ((t, bs) # ms) =
     (align_up (alignof t) off = off \<and> length bs = sizeof t \<and>
      members_packed (off + sizeof t) ms)"

text \<open>
  Modelled from the spec: writing and reading a whole struct, bounds checked against its size.
\<close>

definition write_struct ::
    "struct_decl \<Rightarrow> byte list list \<Rightarrow> byte list \<Rightarrow> byte list option" where
  "write_struct d member_bytes mem =
     (if length mem < struct_size d then None
      else Some (write_members 0 (zip (map snd d) member_bytes) mem))"

definition read_struct :: "struct_decl \<Rightarrow> byte list \<Rightarrow> byte list list option" where
  "read_struct d mem =
     (if length mem < struct_size d then None else Some (read_members 0 (map snd d) mem))"

text \<open>
  Modelled from the spec: the writer and the reader of each of the five structs, member by member
  in declaration order.
\<close>

definition DotInstanceUniform_write ::
    "byte_order \<Rightarrow> DotInstanceUniform \<Rightarrow> byte list \<Rightarrow> byte list option" where
  "DotInstanceUniform_write bo u mem =
     write_struct DotInstanceUniform_decl [vector_float2_bytes bo (center u)] mem"

definition DotInstanceUniform_read ::
    "byte_order \<Rightarrow> byte list \<Rightarrow> DotInstanceUniform option" where
  "DotInstanceUniform_read bo mem =
     (case read_struct DotInstanceUniform_decl mem of
        Some [b0] \<Rightarrow> Some \<lparr>center = vector_float2_of_bytes bo b0\<rparr>
      | _ \<Rightarrow> None)"

definition FrameUniforms_write ::
    "byte_order \<Rightarrow> FrameUniforms \<Rightarrow> byte list \<Rightarrow> byte list option" where
  "FrameUniforms_write bo u mem =
     write_struct FrameUniforms_decl
       [vector_float2_bytes bo (canvasSize u),
        float_bytes bo (dotRadius u),
        float_bytes bo (smoothing u),
        vector_float2_bytes bo (gradientStart u),
        vector_float2_bytes bo (gradientEnd u),
        float_bytes bo (time u),
        float_bytes bo (driftStrength u),
        uint_bytes bo (gradientStopCount u),
        uint_bytes bo (underscore_padding u),
        vector_float4_bytes bo (gradientStops u),
        array4_bytes (vector_float4_bytes bo) (gradientColors u)] mem"

definition FrameUniforms_read :: "byte_order \<Rightarrow> byte list \<Rightarrow> FrameUniforms option" where
  "FrameUniforms_read bo mem =
     (case read_struct FrameUniforms_decl mem of
        Some [b0, b1, b2, b3, b4, b5, b6, b7, b8, b9, b10] \<Rightarrow>
          Some \<lparr>canvasSize = vector_float2_of_bytes bo b0,
                dotRadius = float_of_bytes bo b1,
                smoothing = float_of_bytes bo b2,
                gradientStart = vector_float2_of_bytes bo b3,
                gradientEnd = vector_float2_of_bytes bo b4,
                time = float_of_bytes bo b5,
                driftStrength = float_of_bytes bo b6,
                gradientStopCount = uint_of_bytes bo b7,
                underscore_padding = uint_of_bytes bo b8,
                gradientStops = vector_float4_of_bytes bo b9,
                gradientColors = array4_of_bytes (vector_float4_of_bytes bo) 16 b10\<rparr>
      | _ \<Rightarrow> None)"

definition SimulationDotState_write ::
    "byte_order \<Rightarrow> SimulationDotState \<Rightarrow> byte list \<Rightarrow> byte list option" where
  "SimulationDotState_write bo u mem =
     write_struct SimulationDotState_decl
       [vector_float2_bytes bo (offset u), vector_float2_bytes bo (velocity u)] mem"

definition SimulationDotState_read ::
    "byte_order \<Rightarrow> byte list \<Rightarrow> SimulationDotState option" where
  "SimulationDotState_read bo mem =
     (case read_struct SimulationDotState_decl mem of
        Some [b0, b1] \<Rightarrow>
          Some \<lparr>offset = vector_float2_of_bytes bo b0, velocity = vector_float2_of_bytes bo b1\<rparr>
      | _ \<Rightarrow> None)"

definition SimulationTouch_write ::
    "byte_order \<Rightarrow> SimulationTouch \<Rightarrow> byte list \<Rightarrow> byte list option" where
  "SimulationTouch_write bo u mem =
     write_struct SimulationTouch_decl [vector_float4_bytes bo (position u)] mem"

definition SimulationTouch_read :: "byte_order \<Rightarrow> byte list \<Rightarrow> SimulationTouch option" where
  "SimulationTouch_read bo mem =
     (case read_struct SimulationTouch_decl mem of
        Some [b0] \<Rightarrow> Some \<lparr>position = vector_float4_of_bytes bo b0\<rparr>
      | _ \<Rightarrow> None)"

definition SimulationUniforms_write ::
    "byte_order \<Rightarrow> SimulationUniforms \<Rightarrow> byte list \<Rightarrow> byte list option" where
  "SimulationUniforms_write bo u mem =
     write_struct SimulationUniforms_decl
       [vector_float4_bytes bo (timeSpring u),
        vector_float4_bytes bo (displacementMass u),
        uint_bytes bo (touchCount u),
        uint_bytes bo (dotCount u),
        uint_bytes bo (padding0 u),
        uint_bytes bo (padding1 u)] mem"

definition SimulationUniforms_read ::
    "byte_order \<Rightarrow> byte list \<Rightarrow> SimulationUniforms option" where
  "SimulationUniforms_read bo mem =
     (case read_struct SimulationUniforms_decl mem of
        Some [b0, b1, b2, b3, b4, b5] \<Rightarrow>
          Some \<lparr>timeSpring = vector_float4_of_bytes bo b0,
                displacementMass = vector_float4_of_bytes bo b1,
                touchCount = uint_of_bytes bo b2,
                dotCount = uint_of_bytes bo b3,
                padding0 = uint_of_bytes bo b4,
                padding1 = uint_of_bytes bo b5\<rparr>
      | _ \<Rightarrow> None)"

subsection \<open>Concrete values\<close>

text \<open>Values with every bit zero, to build the examples from.\<close>

definition vector_float2_zero :: vector_float2 where
  "vector_float2_zero = \<lparr>x2 = float_of_bits 0, y2 = float_of_bits 0\<rparr>"

definition vector_float4_zero :: vector_float4 where
  "vector_float4_zero =
     \<lparr>x4 = float_of_bits 0, y4 = float_of_bits 0, z4 = float_of_bits 0, w4 = float_of_bits 0\<rparr>"

definition FrameUniforms_zero :: FrameUniforms where
  "FrameUniforms_zero =
     \<lparr>canvasSize = vector_float2_zero, dotRadius = float_of_bits 0,
      smoothing = float_of_bits 0, gradientStart = vector_float2_zero,
      gradientEnd = vector_float2_zero, time = float_of_bits 0,
      driftStrength = float_of_bits 0, gradientStopCount = 0, underscore_padding = 0,
      gradientStops = vector_float4_zero,
      gradientColors =
        Array4 vector_float4_zero vector_float4_zero vector_float4_zero vector_float4_zero\<rparr>"




text \<open>Four distinct colours (red, green, blue, white; alpha 1) and four stops.\<close>

definition rgba :: "32 word \<Rightarrow> 32 word \<Rightarrow> 32 word \<Rightarrow> 32 word \<Rightarrow> vector_float4" where
  "rgba r g b a =
     \<lparr>x4 = float_of_bits r, y4 = float_of_bits g, z4 = float_of_bits b, w4 = float_of_bits a\<rparr>"

definition four_colors :: "vector_float4 array4" where
  "four_colors =
     Array4 (rgba 0x3F800000 0 0 0x3F800000) (rgba 0 0x3F800000 0 0x3F800000)
       (rgba 0 0 0x3F800000 0x3F800000) (rgba 0x3F800000 0x3F800000 0x3F800000 0x3F800000)"

definition four_stop_uniforms :: FrameUniforms where
  "four_stop_uniforms = FrameUniforms_zero\<lparr>gradientStopCount := 4, gradientColors := four_colors\<rparr>"

text \<open>A frame whose producer stored five stops.\<close>

definition five_stop_uniforms :: FrameUniforms where
  "five_stop_uniforms = FrameUniforms_zero\<lparr>gradientStopCount := 5\<rparr>"

section \<open>Properties\<close>

subsection \<open>Helper facts\<close>

lemma BufferIndex_UNIV:
  "(UNIV :: BufferIndex set) = {BufferIndexVertices, BufferIndexInstances, BufferIndexUniforms}"
proof -
  have "b \<in> {BufferIndexVertices, BufferIndexInstances, BufferIndexUniforms}" for b
    by (cases b) simp_all
  then show ?thesis by blast
qed

lemma SimulationBufferIndex_UNIV:
  "(UNIV :: SimulationBufferIndex set) =
     {SimulationBufferIndexRestPositions, SimulationBufferIndexStates,
      SimulationBufferIndexInstances, SimulationBufferIndexUniforms,
      SimulationBufferIndexTouches}"
proof -
  have "b \<in> {SimulationBufferIndexRestPositions, SimulationBufferIndexStates,
      SimulationBufferIndexInstances, SimulationBufferIndexUniforms,
      SimulationBufferIndexTouches}" for b
    by (cases b) simp_all
  then show ?thesis by blast
qed

lemma array4_capacity_4: "array4_capacity a = 4"
  by (cases a) (simp add: array4_capacity_def)

lemma array4_get_defined: "(\<exists>c. array4_get a i = Some c) = (i < 4)"
  by (simp add: array4_get_def array4_capacity_4)

lemma uint_of_int_mod: "uint (uint_of_int i) = i mod 2 ^ 32"
  by (simp add: uint_of_int_def uint_word_of_int)

lemma uint_lt_2_32: "uint (w :: uint) < 4294967296"
  using uint_lt2p [of w] by simp

lemma uint_bytes_le_round_trip: "uint_of_bytes_le (uint_bytes_le w) = w"
proof -
  let ?r = "ucast (ucast w :: byte) OR
        push_bit 8 (ucast (ucast (drop_bit 8 w) :: byte) OR
        push_bit 8 (ucast (ucast (drop_bit 16 w) :: byte) OR
        push_bit 8 (ucast (ucast (drop_bit 24 w) :: byte)))) :: uint"
  have "?r = w"
  proof (rule bit_word_eqI)
    fix n
    assume "n < LENGTH(32)"
    then consider "n < 8" | "8 \<le> n" "n < 16" | "16 \<le> n" "n < 24" | "24 \<le> n" "n < 32"
      by fastforce
    then show "bit ?r n = bit w n"
      by cases (auto simp add: bit_simps)
  qed
  then show ?thesis
    by (simp add: uint_of_bytes_le_def uint_bytes_le_def)
qed

lemma uint_round_trip: "uint_of_bytes bo (uint_bytes bo w) = w"
  by (cases bo) (simp_all add: uint_bytes_def uint_of_bytes_def uint_bytes_le_round_trip)

lemma length_uint_bytes: "length (uint_bytes bo w) = 4"
  by (cases bo) (simp_all add: uint_bytes_def uint_bytes_le_def)

lemma float_round_trip: "float_of_bytes bo (float_bytes bo f) = f"
  by (simp add: float_of_bytes_def float_bytes_def uint_round_trip)

lemma length_float_bytes: "length (float_bytes bo f) = 4"
  by (simp add: float_bytes_def length_uint_bytes)

lemma vector_float2_round_trip: "vector_float2_of_bytes bo (vector_float2_bytes bo v) = v"
  by (simp add: vector_float2_of_bytes_def vector_float2_bytes_def load_bytes_def
      length_float_bytes float_round_trip)

lemma length_vector_float2_bytes: "length (vector_float2_bytes bo v) = 8"
  by (simp add: vector_float2_bytes_def length_float_bytes)

lemma vector_float4_round_trip: "vector_float4_of_bytes bo (vector_float4_bytes bo v) = v"
  by (simp add: vector_float4_of_bytes_def vector_float4_bytes_def load_bytes_def
      length_float_bytes float_round_trip)

lemma length_vector_float4_bytes: "length (vector_float4_bytes bo v) = 16"
  by (simp add: vector_float4_bytes_def length_float_bytes)

lemma colors_round_trip:
  "array4_of_bytes (vector_float4_of_bytes bo) 16 (array4_bytes (vector_float4_bytes bo) a) = a"
  by (cases a)
    (simp add: array4_of_bytes_def array4_bytes_def load_bytes_def
      length_vector_float4_bytes vector_float4_round_trip)

lemma length_colors_bytes: "length (array4_bytes (vector_float4_bytes bo) a) = 64"
  by (cases a) (simp add: array4_bytes_def length_vector_float4_bytes)

lemmas member_lengths = length_uint_bytes length_float_bytes length_vector_float2_bytes
  length_vector_float4_bytes length_colors_bytes

lemmas member_round_trips = uint_round_trip float_round_trip vector_float2_round_trip
  vector_float4_round_trip colors_round_trip


lemma write_members_packed_from:
  "members_packed (length pre) ms \<Longrightarrow>
   write_members (length pre) ms (pre @ old) =
     pre @ concat (map snd ms) @ drop (length (concat (map snd ms))) old"
proof (induction ms arbitrary: pre old)
  case Nil
  then show ?case by simp
next
  case (Cons m ms)
  obtain t bs where m: "m = (t, bs)" by (cases m)
  from Cons.prems m have al: "align_up (alignof t) (length pre) = length pre"
    and len: "length bs = sizeof t"
    and rest: "members_packed (length (pre @ bs)) ms"
    by simp_all
  have "write_members (length pre) (m # ms) (pre @ old) =
        write_members (length (pre @ bs)) ms ((pre @ bs) @ drop (length bs) old)"
    by (simp add: m al len store_bytes_def)
  also have "\<dots> = (pre @ bs) @ concat (map snd ms) @
      drop (length (concat (map snd ms))) (drop (length bs) old)"
    by (rule Cons.IH [OF rest])
  finally show ?case
    by (simp add: m add.commute [of "length bs"])
qed

lemma write_members_packed:
  assumes "members_packed 0 ms"
  shows "write_members 0 ms mem =
     concat (map snd ms) @ drop (length (concat (map snd ms))) mem"
  using write_members_packed_from [of "[]" ms mem] assms by simp

lemma read_members_packed_from:
  "length ts = length bss \<Longrightarrow> members_packed (length pre) (zip ts bss) \<Longrightarrow>
   read_members (length pre) ts (pre @ concat bss @ rest) = bss"
proof (induction ts bss arbitrary: pre rule: list_induct2)
  case Nil
  then show ?case by simp
next
  case (Cons t ts bs bss)
  from Cons.prems have al: "align_up (alignof t) (length pre) = length pre"
    and len: "length bs = sizeof t"
    and more: "members_packed (length (pre @ bs)) (zip ts bss)"
    by simp_all
  have here: "load_bytes (length pre) (sizeof t) (pre @ concat (bs # bss) @ rest) = bs"
    by (simp add: load_bytes_def len [symmetric])
  have "read_members (length (pre @ bs)) ts ((pre @ bs) @ concat bss @ rest) = bss"
    by (rule Cons.IH [OF more])
  then have there: "read_members (length pre + sizeof t) ts (pre @ concat (bs # bss) @ rest) = bss"
    by (simp add: len)
  show ?case
    using here there by (simp add: al)
qed

lemma read_members_packed:
  assumes "length ts = length bss" and "members_packed 0 (zip ts bss)"
  shows "read_members 0 ts (concat bss @ rest) = bss"
  using read_members_packed_from [of ts bss "[]" rest] assms by simp

lemma DotInstanceUniform_layout:
  "offsets DotInstanceUniform_decl =
     [(''center'', 0)]"
  "struct_size DotInstanceUniform_decl = 8"
  "offsets DotInstanceUniform_decl = agreed_offsets DotInstanceUniform_decl"
  "struct_size DotInstanceUniform_decl = agreed_size DotInstanceUniform_decl"
  by (simp_all add: offsets_def agreed_offsets_def struct_size_def agreed_size_def
      struct_align_def DotInstanceUniform_decl_def align_up_def Let_def)

lemma DotInstanceUniform_write_image:
  "DotInstanceUniform_write bo u mem =
     (if length mem < 8 then None
      else Some (vector_float2_bytes bo (center u) @
        drop 8 mem))"
proof -
  let ?ms = "zip (map snd DotInstanceUniform_decl)
       [vector_float2_bytes bo (center u)]"
  have "members_packed 0 ?ms"
    by (simp add: DotInstanceUniform_decl_def align_up_def member_lengths)
  then have "write_members 0 ?ms mem =
      concat (map snd ?ms) @ drop (length (concat (map snd ?ms))) mem"
    by (rule write_members_packed)
  then show ?thesis
    unfolding DotInstanceUniform_write_def write_struct_def DotInstanceUniform_layout(2)
    by (simp add: DotInstanceUniform_decl_def member_lengths)
qed

lemma DotInstanceUniform_read_image:
  "DotInstanceUniform_read bo (vector_float2_bytes bo (center u) @
        rest) = Some u"
proof -
  let ?bss = "[vector_float2_bytes bo (center u)]"
  have "read_members 0 (map snd DotInstanceUniform_decl) (concat ?bss @ rest) = ?bss"
    by (rule read_members_packed)
      (simp_all add: DotInstanceUniform_decl_def align_up_def member_lengths)
  then show ?thesis
    unfolding DotInstanceUniform_read_def read_struct_def DotInstanceUniform_layout(2)
    by (simp add: member_lengths member_round_trips)
qed

lemma DotInstanceUniform_round_trip:
  "Option.bind (DotInstanceUniform_write bo u mem) (DotInstanceUniform_read bo) =
     (if length mem < 8 then None else Some u)"
  by (simp add: DotInstanceUniform_write_image DotInstanceUniform_read_image)

lemma FrameUniforms_layout:
  "offsets FrameUniforms_decl =
     [(''canvasSize'', 0),
      (''dotRadius'', 8),
      (''smoothing'', 12),
      (''gradientStart'', 16),
      (''gradientEnd'', 24),
      (''time'', 32),
      (''driftStrength'', 36),
      (''gradientStopCount'', 40),
      (''_padding'', 44),
      (''gradientStops'', 48),
      (''gradientColors'', 64)]"
  "struct_size FrameUniforms_decl = 128"
  "offsets FrameUniforms_decl = agreed_offsets FrameUniforms_decl"
  "struct_size FrameUniforms_decl = agreed_size FrameUniforms_decl"
  by (simp_all add: offsets_def agreed_offsets_def struct_size_def agreed_size_def
      struct_align_def FrameUniforms_decl_def align_up_def Let_def)

lemma FrameUniforms_write_image:
  "FrameUniforms_write bo u mem =
     (if length mem < 128 then None
      else Some (vector_float2_bytes bo (canvasSize u) @
        float_bytes bo (dotRadius u) @
        float_bytes bo (smoothing u) @
        vector_float2_bytes bo (gradientStart u) @
        vector_float2_bytes bo (gradientEnd u) @
        float_bytes bo (time u) @
        float_bytes bo (driftStrength u) @
        uint_bytes bo (gradientStopCount u) @
        uint_bytes bo (underscore_padding u) @
        vector_float4_bytes bo (gradientStops u) @
        array4_bytes (vector_float4_bytes bo) (gradientColors u) @
        drop 128 mem))"
proof -
  let ?ms = "zip (map snd FrameUniforms_decl)
       [vector_float2_bytes bo (canvasSize u),
        float_bytes bo (dotRadius u),
        float_bytes bo (smoothing u),
        vector_float2_bytes bo (gradientStart u),
        vector_float2_bytes bo (gradientEnd u),
        float_bytes bo (time u),
        float_bytes bo (driftStrength u),
        uint_bytes bo (gradientStopCount u),
        uint_bytes bo (underscore_padding u),
        vector_float4_bytes bo (gradientStops u),
        array4_bytes (vector_float4_bytes bo) (gradientColors u)]"
  have "members_packed 0 ?ms"
    by (simp add: FrameUniforms_decl_def align_up_def member_lengths)
  then have "write_members 0 ?ms mem =
      concat (map snd ?ms) @ drop (length (concat (map snd ?ms))) mem"
    by (rule write_members_packed)
  then show ?thesis
    unfolding FrameUniforms_write_def write_struct_def FrameUniforms_layout(2)
    by (simp add: FrameUniforms_decl_def member_lengths)
qed

lemma FrameUniforms_read_image:
  "FrameUniforms_read bo (vector_float2_bytes bo (canvasSize u) @
        float_bytes bo (dotRadius u) @
        float_bytes bo (smoothing u) @
        vector_float2_bytes bo (gradientStart u) @
        vector_float2_bytes bo (gradientEnd u) @
        float_bytes bo (time u) @
        float_bytes bo (driftStrength u) @
        uint_bytes bo (gradientStopCount u) @
        uint_bytes bo (underscore_padding u) @
        vector_float4_bytes bo (gradientStops u) @
        array4_bytes (vector_float4_bytes bo) (gradientColors u) @
        rest) = Some u"
proof -
  let ?bss = "[vector_float2_bytes bo (canvasSize u),
        float_bytes bo (dotRadius u),
        float_bytes bo (smoothing u),
        vector_float2_bytes bo (gradientStart u),
        vector_float2_bytes bo (gradientEnd u),
        float_bytes bo (time u),
        float_bytes bo (driftStrength u),
        uint_bytes bo (gradientStopCount u),
        uint_bytes bo (underscore_padding u),
        vector_float4_bytes bo (gradientStops u),
        array4_bytes (vector_float4_bytes bo) (gradientColors u)]"
  have "read_members 0 (map snd FrameUniforms_decl) (concat ?bss @ rest) = ?bss"
    by (rule read_members_packed)
      (simp_all add: FrameUniforms_decl_def align_up_def member_lengths)
  then show ?thesis
    unfolding FrameUniforms_read_def read_struct_def FrameUniforms_layout(2)
    by (simp add: member_lengths member_round_trips)
qed

lemma FrameUniforms_round_trip:
  "Option.bind (FrameUniforms_write bo u mem) (FrameUniforms_read bo) =
     (if length mem < 128 then None else Some u)"
  by (simp add: FrameUniforms_write_image FrameUniforms_read_image)

lemma SimulationDotState_layout:
  "offsets SimulationDotState_decl =
     [(''offset'', 0),
      (''velocity'', 8)]"
  "struct_size SimulationDotState_decl = 16"
  "offsets SimulationDotState_decl = agreed_offsets SimulationDotState_decl"
  "struct_size SimulationDotState_decl = agreed_size SimulationDotState_decl"
  by (simp_all add: offsets_def agreed_offsets_def struct_size_def agreed_size_def
      struct_align_def SimulationDotState_decl_def align_up_def Let_def)

lemma SimulationDotState_write_image:
  "SimulationDotState_write bo u mem =
     (if length mem < 16 then None
      else Some (vector_float2_bytes bo (offset u) @
        vector_float2_bytes bo (velocity u) @
        drop 16 mem))"
proof -
  let ?ms = "zip (map snd SimulationDotState_decl)
       [vector_float2_bytes bo (offset u),
        vector_float2_bytes bo (velocity u)]"
  have "members_packed 0 ?ms"
    by (simp add: SimulationDotState_decl_def align_up_def member_lengths)
  then have "write_members 0 ?ms mem =
      concat (map snd ?ms) @ drop (length (concat (map snd ?ms))) mem"
    by (rule write_members_packed)
  then show ?thesis
    unfolding SimulationDotState_write_def write_struct_def SimulationDotState_layout(2)
    by (simp add: SimulationDotState_decl_def member_lengths)
qed

lemma SimulationDotState_read_image:
  "SimulationDotState_read bo (vector_float2_bytes bo (offset u) @
        vector_float2_bytes bo (velocity u) @
        rest) = Some u"
proof -
  let ?bss = "[vector_float2_bytes bo (offset u),
        vector_float2_bytes bo (velocity u)]"
  have "read_members 0 (map snd SimulationDotState_decl) (concat ?bss @ rest) = ?bss"
    by (rule read_members_packed)
      (simp_all add: SimulationDotState_decl_def align_up_def member_lengths)
  then show ?thesis
    unfolding SimulationDotState_read_def read_struct_def SimulationDotState_layout(2)
    by (simp add: member_lengths member_round_trips)
qed

lemma SimulationDotState_round_trip:
  "Option.bind (SimulationDotState_write bo u mem) (SimulationDotState_read bo) =
     (if length mem < 16 then None else Some u)"
  by (simp add: SimulationDotState_write_image SimulationDotState_read_image)

lemma SimulationTouch_layout:
  "offsets SimulationTouch_decl =
     [(''position'', 0)]"
  "struct_size SimulationTouch_decl = 16"
  "offsets SimulationTouch_decl = agreed_offsets SimulationTouch_decl"
  "struct_size SimulationTouch_decl = agreed_size SimulationTouch_decl"
  by (simp_all add: offsets_def agreed_offsets_def struct_size_def agreed_size_def
      struct_align_def SimulationTouch_decl_def align_up_def Let_def)

lemma SimulationTouch_write_image:
  "SimulationTouch_write bo u mem =
     (if length mem < 16 then None
      else Some (vector_float4_bytes bo (position u) @
        drop 16 mem))"
proof -
  let ?ms = "zip (map snd SimulationTouch_decl)
       [vector_float4_bytes bo (position u)]"
  have "members_packed 0 ?ms"
    by (simp add: SimulationTouch_decl_def align_up_def member_lengths)
  then have "write_members 0 ?ms mem =
      concat (map snd ?ms) @ drop (length (concat (map snd ?ms))) mem"
    by (rule write_members_packed)
  then show ?thesis
    unfolding SimulationTouch_write_def write_struct_def SimulationTouch_layout(2)
    by (simp add: SimulationTouch_decl_def member_lengths)
qed

lemma SimulationTouch_read_image:
  "SimulationTouch_read bo (vector_float4_bytes bo (position u) @
        rest) = Some u"
proof -
  let ?bss = "[vector_float4_bytes bo (position u)]"
  have "read_members 0 (map snd SimulationTouch_decl) (concat ?bss @ rest) = ?bss"
    by (rule read_members_packed)
      (simp_all add: SimulationTouch_decl_def align_up_def member_lengths)
  then show ?thesis
    unfolding SimulationTouch_read_def read_struct_def SimulationTouch_layout(2)
    by (simp add: member_lengths member_round_trips)
qed

lemma SimulationTouch_round_trip:
  "Option.bind (SimulationTouch_write bo u mem) (SimulationTouch_read bo) =
     (if length mem < 16 then None else Some u)"
  by (simp add: SimulationTouch_write_image SimulationTouch_read_image)

lemma SimulationUniforms_layout:
  "offsets SimulationUniforms_decl =
     [(''timeSpring'', 0),
      (''displacementMass'', 16),
      (''touchCount'', 32),
      (''dotCount'', 36),
      (''padding0'', 40),
      (''padding1'', 44)]"
  "struct_size SimulationUniforms_decl = 48"
  "offsets SimulationUniforms_decl = agreed_offsets SimulationUniforms_decl"
  "struct_size SimulationUniforms_decl = agreed_size SimulationUniforms_decl"
  by (simp_all add: offsets_def agreed_offsets_def struct_size_def agreed_size_def
      struct_align_def SimulationUniforms_decl_def align_up_def Let_def)

lemma SimulationUniforms_write_image:
  "SimulationUniforms_write bo u mem =
     (if length mem < 48 then None
      else Some (vector_float4_bytes bo (timeSpring u) @
        vector_float4_bytes bo (displacementMass u) @
        uint_bytes bo (touchCount u) @
        uint_bytes bo (dotCount u) @
        uint_bytes bo (padding0 u) @
        uint_bytes bo (padding1 u) @
        drop 48 mem))"
proof -
  let ?ms = "zip (map snd SimulationUniforms_decl)
       [vector_float4_bytes bo (timeSpring u),
        vector_float4_bytes bo (displacementMass u),
        uint_bytes bo (touchCount u),
        uint_bytes bo (dotCount u),
        uint_bytes bo (padding0 u),
        uint_bytes bo (padding1 u)]"
  have "members_packed 0 ?ms"
    by (simp add: SimulationUniforms_decl_def align_up_def member_lengths)
  then have "write_members 0 ?ms mem =
      concat (map snd ?ms) @ drop (length (concat (map snd ?ms))) mem"
    by (rule write_members_packed)
  then show ?thesis
    unfolding SimulationUniforms_write_def write_struct_def SimulationUniforms_layout(2)
    by (simp add: SimulationUniforms_decl_def member_lengths)
qed

lemma SimulationUniforms_read_image:
  "SimulationUniforms_read bo (vector_float4_bytes bo (timeSpring u) @
        vector_float4_bytes bo (displacementMass u) @
        uint_bytes bo (touchCount u) @
        uint_bytes bo (dotCount u) @
        uint_bytes bo (padding0 u) @
        uint_bytes bo (padding1 u) @
        rest) = Some u"
proof -
  let ?bss = "[vector_float4_bytes bo (timeSpring u),
        vector_float4_bytes bo (displacementMass u),
        uint_bytes bo (touchCount u),
        uint_bytes bo (dotCount u),
        uint_bytes bo (padding0 u),
        uint_bytes bo (padding1 u)]"
  have "read_members 0 (map snd SimulationUniforms_decl) (concat ?bss @ rest) = ?bss"
    by (rule read_members_packed)
      (simp_all add: SimulationUniforms_decl_def align_up_def member_lengths)
  then show ?thesis
    unfolding SimulationUniforms_read_def read_struct_def SimulationUniforms_layout(2)
    by (simp add: member_lengths member_round_trips)
qed

lemma SimulationUniforms_round_trip:
  "Option.bind (SimulationUniforms_write bo u mem) (SimulationUniforms_read bo) =
     (if length mem < 48 then None else Some u)"
  by (simp add: SimulationUniforms_write_image SimulationUniforms_read_image)

lemma FrameUniforms_needs_padding_member:
  "member_offsets 0 (map snd (filter (\<lambda>m. fst m \<noteq> ''_padding'') FrameUniforms_decl)) \<noteq>
   packed_offsets 0 (map snd (filter (\<lambda>m. fst m \<noteq> ''_padding'') FrameUniforms_decl))"
  by (simp add: FrameUniforms_decl_def align_up_def Let_def)

subsection \<open>Binding slots\<close>

text \<open>
  Claim C1. \<^verbatim>\<open>BufferIndex\<close> has exactly the values Vertices = 0, Instances = 1,
  Uniforms = 2, and \<^verbatim>\<open>SimulationBufferIndex\<close> exactly RestPositions = 0, States = 1,
  Instances = 2, Uniforms = 3, Touches = 4. The raw values of each enumeration are the
  whole interval from 0 (no gap), and no two enumerators share a raw value.
\<close>

theorem enum_raw_values:
  "BufferIndex_raw BufferIndexVertices = 0 \<and>
   BufferIndex_raw BufferIndexInstances = 1 \<and>
   BufferIndex_raw BufferIndexUniforms = 2 \<and>
   range BufferIndex_raw = {0..2} \<and>
   inj BufferIndex_raw \<and>
   SimulationBufferIndex_raw SimulationBufferIndexRestPositions = 0 \<and>
   SimulationBufferIndex_raw SimulationBufferIndexStates = 1 \<and>
   SimulationBufferIndex_raw SimulationBufferIndexInstances = 2 \<and>
   SimulationBufferIndex_raw SimulationBufferIndexUniforms = 3 \<and>
   SimulationBufferIndex_raw SimulationBufferIndexTouches = 4 \<and>
   range SimulationBufferIndex_raw = {0..4} \<and>
   inj SimulationBufferIndex_raw"
proof -
  have r1: "range BufferIndex_raw = {0..2}"
    unfolding BufferIndex_UNIV by auto
  have i1: "inj BufferIndex_raw"
  proof (rule injI)
    fix a b
    assume "BufferIndex_raw a = BufferIndex_raw b"
    then show "a = b" by (cases a; cases b) simp_all
  qed
  have r2: "range SimulationBufferIndex_raw = {0..4}"
    unfolding SimulationBufferIndex_UNIV by auto
  have i2: "inj SimulationBufferIndex_raw"
  proof (rule injI)
    fix a b
    assume "SimulationBufferIndex_raw a = SimulationBufferIndex_raw b"
    then show "a = b" by (cases a; cases b) simp_all
  qed
  from r1 i1 r2 i2 show ?thesis by simp
qed

subsection \<open>The layout of the structs\<close>

text \<open>
  Claim C2. For each of the five structs: under the layout rule of C, with the widths the
  spec gives, every member lies at the byte offset the agreed layout gives it (declaration
  order, each member directly after the one before) and the struct is as large as its
  members together, so the declaration leaves no gap that it does not name:
  \<^verbatim>\<open>DotInstanceUniform\<close> has 8 bytes, \<^verbatim>\<open>FrameUniforms\<close> 128,
  \<^verbatim>\<open>SimulationDotState\<close> 16, \<^verbatim>\<open>SimulationTouch\<close> 16 and
  \<^verbatim>\<open>SimulationUniforms\<close> 48. Writing a value of the struct into a buffer, whatever
  the buffer held, and reading the buffer back through the struct's declaration returns
  the value, member for member, in either byte order; in a buffer shorter than the struct
  neither can be done. And a member read from a struct built from given members is the
  member given.
\<close>

theorem struct_layout_round_trip:
  "offsets DotInstanceUniform_decl =
     [(''center'', 0)] \<and>
   struct_size DotInstanceUniform_decl = 8 \<and>
   offsets DotInstanceUniform_decl = agreed_offsets DotInstanceUniform_decl \<and>
   struct_size DotInstanceUniform_decl = agreed_size DotInstanceUniform_decl \<and>
   offsets FrameUniforms_decl =
     [(''canvasSize'', 0), (''dotRadius'', 8), (''smoothing'', 12), (''gradientStart'', 16),
      (''gradientEnd'', 24), (''time'', 32), (''driftStrength'', 36),
      (''gradientStopCount'', 40), (''_padding'', 44), (''gradientStops'', 48),
      (''gradientColors'', 64)] \<and>
   struct_size FrameUniforms_decl = 128 \<and>
   offsets FrameUniforms_decl = agreed_offsets FrameUniforms_decl \<and>
   struct_size FrameUniforms_decl = agreed_size FrameUniforms_decl \<and>
   offsets SimulationDotState_decl = [(''offset'', 0), (''velocity'', 8)] \<and>
   struct_size SimulationDotState_decl = 16 \<and>
   offsets SimulationDotState_decl = agreed_offsets SimulationDotState_decl \<and>
   struct_size SimulationDotState_decl = agreed_size SimulationDotState_decl \<and>
   offsets SimulationTouch_decl = [(''position'', 0)] \<and>
   struct_size SimulationTouch_decl = 16 \<and>
   offsets SimulationTouch_decl = agreed_offsets SimulationTouch_decl \<and>
   struct_size SimulationTouch_decl = agreed_size SimulationTouch_decl \<and>
   offsets SimulationUniforms_decl =
     [(''timeSpring'', 0), (''displacementMass'', 16), (''touchCount'', 32),
      (''dotCount'', 36), (''padding0'', 40), (''padding1'', 44)] \<and>
   struct_size SimulationUniforms_decl = 48 \<and>
   offsets SimulationUniforms_decl = agreed_offsets SimulationUniforms_decl \<and>
   struct_size SimulationUniforms_decl = agreed_size SimulationUniforms_decl \<and>
   Option.bind (DotInstanceUniform_write bo a mem) (DotInstanceUniform_read bo) =
     (if length mem < 8 then None else Some a) \<and>
   Option.bind (FrameUniforms_write bo f mem) (FrameUniforms_read bo) =
     (if length mem < 128 then None else Some f) \<and>
   Option.bind (SimulationDotState_write bo d mem) (SimulationDotState_read bo) =
     (if length mem < 16 then None else Some d) \<and>
   Option.bind (SimulationTouch_write bo p mem) (SimulationTouch_read bo) =
     (if length mem < 16 then None else Some p) \<and>
   Option.bind (SimulationUniforms_write bo s mem) (SimulationUniforms_read bo) =
     (if length mem < 48 then None else Some s) \<and>
   center \<lparr>center = a0\<rparr> = a0 \<and>
   (let r = \<lparr>canvasSize = f0, dotRadius = f1, smoothing = f2, gradientStart = f3,
              gradientEnd = f4, time = f5, driftStrength = f6, gradientStopCount = f7,
              underscore_padding = f8, gradientStops = f9, gradientColors = f10\<rparr>
    in canvasSize r = f0 \<and> dotRadius r = f1 \<and> smoothing r = f2 \<and> gradientStart r = f3 \<and>
       gradientEnd r = f4 \<and> time r = f5 \<and> driftStrength r = f6 \<and>
       gradientStopCount r = f7 \<and> underscore_padding r = f8 \<and> gradientStops r = f9 \<and>
       gradientColors r = f10) \<and>
   (let r = \<lparr>offset = d0, velocity = d1\<rparr> in offset r = d0 \<and> velocity r = d1) \<and>
   position \<lparr>position = p0\<rparr> = p0 \<and>
   (let r = \<lparr>timeSpring = s0, displacementMass = s1, touchCount = s2, dotCount = s3,
              padding0 = s4, padding1 = s5\<rparr>
    in timeSpring r = s0 \<and> displacementMass r = s1 \<and> touchCount r = s2 \<and>
       dotCount r = s3 \<and> padding0 r = s4 \<and> padding1 r = s5)"
proof -
  note layouts = DotInstanceUniform_layout FrameUniforms_layout SimulationDotState_layout
    SimulationTouch_layout SimulationUniforms_layout
  note cycles = DotInstanceUniform_round_trip FrameUniforms_round_trip
    SimulationDotState_round_trip SimulationTouch_round_trip SimulationUniforms_round_trip
  show ?thesis
    by (intro conjI) (rule layouts | rule cycles | simp add: Let_def)+
qed

subsection \<open>The colour array and the stop count\<close>

text \<open>
  Claim C3. The member \<^verbatim>\<open>gradientColors\<close> holds exactly four colours: its capacity is
  4 in every \<^verbatim>\<open>FrameUniforms\<close>, and a subscript reads an element exactly when it is
  below 4. A \<^verbatim>\<open>FrameUniforms\<close> with \<^verbatim>\<open>gradientStopCount = 4\<close> and four distinct
  colours goes through the cycle unchanged: written into a buffer that is large enough,
  the bytes of the struct copied into a second buffer, and read from there, it has the
  same four colours in the same places, still distinct, and the stop count 4. Reading the
  first buffer gives the same.
\<close>

theorem gradientColors_capacity_round_trip:
  "array4_capacity (gradientColors u) = 4 \<and>
   (\<exists>c. array4_get (gradientColors u) i = Some c) = (i < 4) \<and>
   (gradientStopCount u = 4 \<and> distinct (array4_elems (gradientColors u)) \<and>
    struct_size FrameUniforms_decl \<le> length mem \<and>
    struct_size FrameUniforms_decl \<le> length dst \<longrightarrow>
      (\<exists>mem' dst' v.
         FrameUniforms_write bo u mem = Some mem' \<and>
         FrameUniforms_read bo mem' = Some v \<and>
         memcpy dst mem' (struct_size FrameUniforms_decl) = Some dst' \<and>
         FrameUniforms_read bo dst' = Some v \<and>
         array4_elems (gradientColors v) = array4_elems (gradientColors u) \<and>
         array4_get (gradientColors v) i = array4_get (gradientColors u) i \<and>
         distinct (array4_elems (gradientColors v)) \<and>
         gradientStopCount v = 4))"
proof -
  let ?image = "vector_float2_bytes bo (canvasSize u) @
        float_bytes bo (dotRadius u) @
        float_bytes bo (smoothing u) @
        vector_float2_bytes bo (gradientStart u) @
        vector_float2_bytes bo (gradientEnd u) @
        float_bytes bo (time u) @
        float_bytes bo (driftStrength u) @
        uint_bytes bo (gradientStopCount u) @
        uint_bytes bo (underscore_padding u) @
        vector_float4_bytes bo (gradientStops u) @
        array4_bytes (vector_float4_bytes bo) (gradientColors u)"
  have len: "length ?image = 128"
    by (simp add: member_lengths)
  have cycle: "\<exists>mem' dst'.
         FrameUniforms_write bo u mem = Some mem' \<and>
         FrameUniforms_read bo mem' = Some u \<and>
         memcpy dst mem' (struct_size FrameUniforms_decl) = Some dst' \<and>
         FrameUniforms_read bo dst' = Some u"
    if big: "struct_size FrameUniforms_decl \<le> length mem"
      "struct_size FrameUniforms_decl \<le> length dst"
  proof -
    from big have m: "\<not> length mem < 128" and d: "128 \<le> length dst"
      by (simp_all add: FrameUniforms_layout(2))
    have w: "FrameUniforms_write bo u mem = Some (?image @ drop 128 mem)"
      using m by (simp add: FrameUniforms_write_image)
    have r: "FrameUniforms_read bo (?image @ rest) = Some u" for rest
      using FrameUniforms_read_image [of bo u rest] by simp
    have "load_bytes 0 128 (?image @ drop 128 mem) = ?image"
      unfolding load_bytes_def using len by simp
    then have c: "memcpy dst (?image @ drop 128 mem) (struct_size FrameUniforms_decl) =
        Some (?image @ drop 128 dst)"
      unfolding memcpy_def FrameUniforms_layout(2) store_bytes_def
      using len d by simp
    from w r [of "drop 128 mem"] c r [of "drop 128 dst"] show ?thesis
      by blast
  qed
  have "array4_capacity (gradientColors u) = 4"
    by (rule array4_capacity_4)
  moreover have "(\<exists>c. array4_get (gradientColors u) i = Some c) = (i < 4)"
    by (rule array4_get_defined)
  ultimately show ?thesis
    using cycle by blast
qed

text \<open>
  The hypotheses of C3 hold of \<open>four_stop_uniforms\<close> (four stops; red, green, blue and
  white) with a zeroed buffer of 128 bytes to write to and a buffer of 256 bytes to copy
  to; the cycle returns its colours.
\<close>

theorem gradientColors_capacity_round_trip_witness:
  "gradientStopCount four_stop_uniforms = 4 \<and>
   distinct (array4_elems (gradientColors four_stop_uniforms)) \<and>
   struct_size FrameUniforms_decl \<le> length (replicate 128 (0 :: byte)) \<and>
   struct_size FrameUniforms_decl \<le> length (replicate 256 (255 :: byte)) \<and>
   (\<exists>mem' dst' v.
      FrameUniforms_write LittleEndian four_stop_uniforms (replicate 128 0) = Some mem' \<and>
      memcpy (replicate 256 255) mem' (struct_size FrameUniforms_decl) = Some dst' \<and>
      FrameUniforms_read LittleEndian dst' = Some v \<and>
      array4_elems (gradientColors v) = array4_elems four_colors \<and>
      gradientStopCount v = 4)"
proof -
  have h1: "gradientStopCount four_stop_uniforms = 4"
    by (simp add: four_stop_uniforms_def)
  have h2: "distinct (array4_elems (gradientColors four_stop_uniforms))"
    by (simp add: four_stop_uniforms_def four_colors_def rgba_def)
  have h3: "struct_size FrameUniforms_decl \<le> length (replicate 128 (0 :: byte))"
    by (simp add: FrameUniforms_layout(2))
  have h4: "struct_size FrameUniforms_decl \<le> length (replicate 256 (255 :: byte))"
    by (simp add: FrameUniforms_layout(2))
  have cols: "gradientColors four_stop_uniforms = four_colors"
    by (simp add: four_stop_uniforms_def)
  from gradientColors_capacity_round_trip
    [where u = four_stop_uniforms and i = 0 and mem = "replicate 128 0"
      and dst = "replicate 256 255" and bo = LittleEndian]
    h1 h2 h3 h4
  have "\<exists>mem' dst' v.
      FrameUniforms_write LittleEndian four_stop_uniforms (replicate 128 0) = Some mem' \<and>
      memcpy (replicate 256 255) mem' (struct_size FrameUniforms_decl) = Some dst' \<and>
      FrameUniforms_read LittleEndian dst' = Some v \<and>
      array4_elems (gradientColors v) = array4_elems (gradientColors four_stop_uniforms) \<and>
      gradientStopCount v = 4"
    by blast
  with h1 h2 h3 h4 show ?thesis
    unfolding cols by blast
qed

text \<open>
  Claim C4, as stated, fails. The header declares \<^verbatim>\<open>gradientStopCount\<close> as a plain
  \<^verbatim>\<open>uint\<close> and checks nothing: \<open>five_stop_uniforms\<close> is a \<^verbatim>\<open>FrameUniforms\<close>
  value whose count, 5, exceeds the capacity 4 of \<^verbatim>\<open>gradientColors\<close>.
\<close>

theorem five_stops_exceed_capacity:
  "\<not> unat (gradientStopCount five_stop_uniforms)
       \<le> array4_capacity (gradientColors five_stop_uniforms)"
  by (simp add: five_stop_uniforms_def array4_capacity_4)

text \<open>
  Claim C4, amended. The member stores whatever count \<open>n\<close> its producer writes;
  the capacity of \<^verbatim>\<open>gradientColors\<close> stays 4 whatever the count is; and the stored
  count is within the capacity exactly when the producer wrote an \<open>n\<close> of at most 4.
  Keeping the count within the capacity is the producer's obligation, not a property of the
  type.
\<close>

theorem gradientStopCount_unconstrained:
  "gradientStopCount (u\<lparr>gradientStopCount := n\<rparr>) = n \<and>
   array4_capacity (gradientColors (u\<lparr>gradientStopCount := n\<rparr>)) = 4 \<and>
   (unat (gradientStopCount (u\<lparr>gradientStopCount := n\<rparr>))
      \<le> array4_capacity (gradientColors (u\<lparr>gradientStopCount := n\<rparr>))) = (unat n \<le> 4)"
  by (simp add: array4_capacity_4)

subsection \<open>The members of the uniform structs\<close>

text \<open>
  Claim C5. A \<^verbatim>\<open>FrameUniforms\<close> consists, in this order, of a 2-component canvas size,
  a dot radius, a smoothing width, the gradient's start and end points (2-component), a
  time, the reserved drift strength, the count of gradient stops, the explicit padding, a
  4-component vector of stop positions and an array of 4 colours, and of nothing else: the
  value is the record of these eleven members, and two values with the same eleven members
  are the same value.
\<close>

theorem FrameUniforms_members:
  fixes u v :: FrameUniforms
  shows
  "u = \<lparr>canvasSize = (canvasSize u :: vector_float2),
        dotRadius = (dotRadius u :: float),
        smoothing = (smoothing u :: float),
        gradientStart = (gradientStart u :: vector_float2),
        gradientEnd = (gradientEnd u :: vector_float2),
        time = (time u :: float),
        driftStrength = (driftStrength u :: float),
        gradientStopCount = (gradientStopCount u :: uint),
        underscore_padding = (underscore_padding u :: uint),
        gradientStops = (gradientStops u :: vector_float4),
        gradientColors = (gradientColors u :: vector_float4 array4)\<rparr> \<and>
   (u = v) =
     (canvasSize u = canvasSize v \<and> dotRadius u = dotRadius v \<and>
      smoothing u = smoothing v \<and> gradientStart u = gradientStart v \<and>
      gradientEnd u = gradientEnd v \<and> time u = time v \<and>
      driftStrength u = driftStrength v \<and> gradientStopCount u = gradientStopCount v \<and>
      underscore_padding u = underscore_padding v \<and> gradientStops u = gradientStops v \<and>
      gradientColors u = gradientColors v) \<and>
   canvasSize u = \<lparr>x2 = x2 (canvasSize u), y2 = y2 (canvasSize u)\<rparr> \<and>
   gradientStops u =
     \<lparr>x4 = x4 (gradientStops u), y4 = y4 (gradientStops u),
      z4 = z4 (gradientStops u), w4 = w4 (gradientStops u)\<rparr> \<and>
   array4_capacity (gradientColors u) = 4"
proof -
  have eq: "(u = v) =
     (canvasSize u = canvasSize v \<and> dotRadius u = dotRadius v \<and>
      smoothing u = smoothing v \<and> gradientStart u = gradientStart v \<and>
      gradientEnd u = gradientEnd v \<and> time u = time v \<and>
      driftStrength u = driftStrength v \<and> gradientStopCount u = gradientStopCount v \<and>
      underscore_padding u = underscore_padding v \<and> gradientStops u = gradientStops v \<and>
      gradientColors u = gradientColors v)"
    by (cases u; cases v) auto
  show ?thesis
    using eq by (simp add: array4_capacity_4)
qed

text \<open>
  Claim C6. A \<^verbatim>\<open>SimulationUniforms\<close> consists of the 4-component vector
  \<^verbatim>\<open>timeSpring\<close> (time step, stiffness, damping; its fourth component is the effect
  radius), the 4-component vector \<^verbatim>\<open>displacementMass\<close> (maximal displacement, inverse
  mass, pixel scale; its fourth component is unused), the count of touches, the count of
  dots and two padding members, and of nothing else.
\<close>

theorem SimulationUniforms_members:
  fixes u v :: SimulationUniforms
  shows
  "u = \<lparr>timeSpring = (timeSpring u :: vector_float4),
        displacementMass = (displacementMass u :: vector_float4),
        touchCount = (touchCount u :: uint),
        dotCount = (dotCount u :: uint),
        padding0 = (padding0 u :: uint),
        padding1 = (padding1 u :: uint)\<rparr> \<and>
   (u = v) =
     (timeSpring u = timeSpring v \<and> displacementMass u = displacementMass v \<and>
      touchCount u = touchCount v \<and> dotCount u = dotCount v \<and>
      padding0 u = padding0 v \<and> padding1 u = padding1 v) \<and>
   timeSpring u = \<lparr>x4 = dt u, y4 = stiffness u, z4 = damping u, w4 = effectRadius u\<rparr> \<and>
   displacementMass u =
     \<lparr>x4 = maxDisplacement u, y4 = invMass u, z4 = pixelScale u,
      w4 = w4 (displacementMass u)\<rparr>"
proof -
  have eq: "(u = v) =
     (timeSpring u = timeSpring v \<and> displacementMass u = displacementMass v \<and>
      touchCount u = touchCount v \<and> dotCount u = dotCount v \<and>
      padding0 u = padding0 v \<and> padding1 u = padding1 v)"
    by (cases u; cases v) auto
  show ?thesis
    using eq
    by (simp add: dt_def stiffness_def damping_def effectRadius_def maxDisplacement_def
        invMass_def pixelScale_def)
qed

subsection \<open>Writing members and reading them back\<close>



text \<open>
  Claim C8. Setting \<^verbatim>\<open>gradientStopCount\<close> to the literal 0 and reading it back gives
  exactly 0. The store does nothing else: every other member keeps its value.
\<close>

theorem gradientStopCount_zero_reads_back:
  "gradientStopCount (u\<lparr>gradientStopCount := 0\<rparr>) = 0 \<and>
   unat (gradientStopCount (u\<lparr>gradientStopCount := 0\<rparr>)) = 0 \<and>
   u\<lparr>gradientStopCount := 0\<rparr> =
     \<lparr>canvasSize = canvasSize u, dotRadius = dotRadius u, smoothing = smoothing u,
      gradientStart = gradientStart u, gradientEnd = gradientEnd u, time = time u,
      driftStrength = driftStrength u, gradientStopCount = 0,
      underscore_padding = underscore_padding u, gradientStops = gradientStops u,
      gradientColors = gradientColors u\<rparr>"
  by (cases u) simp

subsection \<open>The reserved members\<close>

text \<open>
  Claim C9. \<^verbatim>\<open>driftStrength\<close> and the \<^verbatim>\<open>w\<close> component of
  \<^verbatim>\<open>displacementMass\<close> are inert. Updating any other member of \<^verbatim>\<open>FrameUniforms\<close>
  leaves \<^verbatim>\<open>driftStrength\<close> unchanged. Updating any other
  member of \<^verbatim>\<open>SimulationUniforms\<close>, or any other component of
  \<^verbatim>\<open>displacementMass\<close>, leaves that \<^verbatim>\<open>w\<close> unchanged. No quantity the source names
  (time step, stiffness, damping, effect radius, maximal displacement, inverse mass, pixel
  scale) reads that \<^verbatim>\<open>w\<close>: all of them are the same whatever it holds. Both members
  hold what is stored into them.
\<close>

theorem reserved_fields_inert:
  "driftStrength (u\<lparr>canvasSize := cs\<rparr>) = driftStrength u \<and>
   driftStrength (u\<lparr>dotRadius := r\<rparr>) = driftStrength u \<and>
   driftStrength (u\<lparr>smoothing := sm\<rparr>) = driftStrength u \<and>
   driftStrength (u\<lparr>gradientStart := gs\<rparr>) = driftStrength u \<and>
   driftStrength (u\<lparr>gradientEnd := ge\<rparr>) = driftStrength u \<and>
   driftStrength (u\<lparr>time := t\<rparr>) = driftStrength u \<and>
   driftStrength (u\<lparr>gradientStopCount := n\<rparr>) = driftStrength u \<and>
   driftStrength (u\<lparr>underscore_padding := p\<rparr>) = driftStrength u \<and>
   driftStrength (u\<lparr>gradientStops := st\<rparr>) = driftStrength u \<and>
   driftStrength (u\<lparr>gradientColors := cols\<rparr>) = driftStrength u \<and>
   driftStrength (u\<lparr>driftStrength := ds\<rparr>) = ds \<and>
   w4 (displacementMass (s\<lparr>displacementMass := (displacementMass s)\<lparr>w4 := d\<rparr>\<rparr>)) = d \<and>
   w4 (displacementMass (s\<lparr>timeSpring := ts\<rparr>)) = w4 (displacementMass s) \<and>
   w4 (displacementMass (s\<lparr>touchCount := tc\<rparr>)) = w4 (displacementMass s) \<and>
   w4 (displacementMass (s\<lparr>dotCount := dc\<rparr>)) = w4 (displacementMass s) \<and>
   w4 (displacementMass (s\<lparr>padding0 := p0\<rparr>)) = w4 (displacementMass s) \<and>
   w4 (displacementMass (s\<lparr>padding1 := p1\<rparr>)) = w4 (displacementMass s) \<and>
   w4 (displacementMass (s\<lparr>displacementMass := (displacementMass s)\<lparr>x4 := a\<rparr>\<rparr>)) =
     w4 (displacementMass s) \<and>
   w4 (displacementMass (s\<lparr>displacementMass := (displacementMass s)\<lparr>y4 := b\<rparr>\<rparr>)) =
     w4 (displacementMass s) \<and>
   w4 (displacementMass (s\<lparr>displacementMass := (displacementMass s)\<lparr>z4 := c\<rparr>\<rparr>)) =
     w4 (displacementMass s) \<and>
   map (\<lambda>q. q (s\<lparr>displacementMass := (displacementMass s)\<lparr>w4 := d\<rparr>\<rparr>))
     [dt, stiffness, damping, effectRadius, maxDisplacement, invMass, pixelScale] =
   map (\<lambda>q. q s)
     [dt, stiffness, damping, effectRadius, maxDisplacement, invMass, pixelScale]"
  by (simp add: dt_def stiffness_def damping_def effectRadius_def
      maxDisplacement_def invMass_def pixelScale_def)

subsection \<open>The width of the counts\<close>

text \<open>
  Claim C10. The count and padding members (\<^verbatim>\<open>gradientStopCount\<close> and
  \<^verbatim>\<open>_padding\<close> of \<^verbatim>\<open>FrameUniforms\<close>; \<^verbatim>\<open>touchCount\<close>, \<^verbatim>\<open>dotCount\<close>,
  \<^verbatim>\<open>padding0\<close> and \<^verbatim>\<open>padding1\<close> of \<^verbatim>\<open>SimulationUniforms\<close>) are unsigned
  32-bit integers: whatever they hold is at least 0 and below \<open>2 ^ 32\<close>, so no count is
  negative, and storing an integer \<open>i\<close> stores \<open>i mod 2 ^ 32\<close>. Storing \<open>- 1\<close> reads
  back as 4294967295, and storing \<open>2 ^ 32 + 100\<close> as 100.
\<close>

theorem count_fields_32_bit_unsigned:
  fixes f :: FrameUniforms and s :: SimulationUniforms
  shows
  "(0 \<le> uint (gradientStopCount f) \<and> uint (gradientStopCount f) < 2 ^ 32) \<and>
   (0 \<le> uint (underscore_padding f) \<and> uint (underscore_padding f) < 2 ^ 32) \<and>
   (0 \<le> uint (touchCount s) \<and> uint (touchCount s) < 2 ^ 32) \<and>
   (0 \<le> uint (dotCount s) \<and> uint (dotCount s) < 2 ^ 32) \<and>
   (0 \<le> uint (padding0 s) \<and> uint (padding0 s) < 2 ^ 32) \<and>
   (0 \<le> uint (padding1 s) \<and> uint (padding1 s) < 2 ^ 32) \<and>
   uint (gradientStopCount (f\<lparr>gradientStopCount := uint_of_int i\<rparr>)) = i mod 2 ^ 32 \<and>
   uint (underscore_padding (f\<lparr>underscore_padding := uint_of_int i\<rparr>)) = i mod 2 ^ 32 \<and>
   uint (touchCount (s\<lparr>touchCount := uint_of_int i\<rparr>)) = i mod 2 ^ 32 \<and>
   uint (dotCount (s\<lparr>dotCount := uint_of_int i\<rparr>)) = i mod 2 ^ 32 \<and>
   uint (padding0 (s\<lparr>padding0 := uint_of_int i\<rparr>)) = i mod 2 ^ 32 \<and>
   uint (padding1 (s\<lparr>padding1 := uint_of_int i\<rparr>)) = i mod 2 ^ 32 \<and>
   uint (touchCount (s\<lparr>touchCount := uint_of_int (- 1)\<rparr>)) = 4294967295 \<and>
   uint (dotCount (s\<lparr>dotCount := uint_of_int (2 ^ 32 + 100)\<rparr>)) = 100"
  by (simp add: uint_of_int_mod uint_lt_2_32)

end
